theory Spec2Isabelle
  imports Complex_Main "HOL-Library.AList"
begin

section \<open>JavaScript values and plain objects\<close>

text \<open>
  The values that flow through the node server: \<open>undefined\<close>/\<open>null\<close>, strings and
  numbers. \<open>Native k\<close> stands for the function (or object) a plain object inherits from
  \<open>Object.prototype\<close> under the property name \<open>k\<close>; it is what \<open>obj[k]\<close> reads when \<open>k\<close>
  is not an own property but an inherited one.
\<close>

datatype jsval = Undefined | Str string | Num real | Native string

text \<open>The truthiness test of \<open>c ? a : b\<close> and \<open>if (c)\<close>.\<close>

fun truthy :: "jsval \<Rightarrow> bool" where
  "truthy Undefined = False"
| "truthy (Str s) = (s \<noteq> [])"
| "truthy (Num x) = (x \<noteq> 0)"
| "truthy (Native k) = True"

text \<open>
  A plain object is the list of its own properties in insertion order (none of the keys
  used here is an integer index, so insertion order is the order of \<open>Object.keys\<close>).
\<close>

type_synonym jsobj = "(string \<times> jsval) list"

definition object_keys :: "jsobj \<Rightarrow> string list" where
  "object_keys obj = map fst obj"

text \<open>The property names every plain object inherits from \<open>Object.prototype\<close>.\<close>

definition object_prototype_names :: "string list" where
  "object_prototype_names =
     [''constructor'', ''__defineGetter__'', ''__defineSetter__'', ''hasOwnProperty'',
      ''__lookupGetter__'', ''__lookupSetter__'', ''isPrototypeOf'',
      ''propertyIsEnumerable'', ''toString'', ''valueOf'', ''__proto__'',
      ''toLocaleString'']"

text \<open>\<open>key in obj\<close>: own or inherited.\<close>

definition has_property :: "string \<Rightarrow> jsobj \<Rightarrow> bool" where
  "has_property key obj =
     (key \<in> set (object_keys obj) \<or> key \<in> set object_prototype_names)"

text \<open>\<open>obj[key]\<close>.\<close>

definition get_property :: "jsobj \<Rightarrow> string \<Rightarrow> jsval" where
  "get_property obj key =
     (case map_of obj key of
        Some v \<Rightarrow> v
      | None \<Rightarrow> if key \<in> set object_prototype_names then Native key else Undefined)"

text \<open>\<open>obj[key] = v\<close>: an existing property keeps its place, a new one goes last.\<close>

definition set_property :: "string \<Rightarrow> jsval \<Rightarrow> jsobj \<Rightarrow> jsobj" where
  "set_property key v obj = AList.update key v obj"

section \<open>Devices, vendor data, errors and effects\<close>

text \<open>A driver \<open>{value, uom}\<close> and a node of the hub interface (\<open>Polyglot.Node\<close>).\<close>

record driver =
  dvalue :: jsval
  uom :: nat

record node =
  nodeDefId :: string
  primary :: string
  address :: string
  name :: string
  drivers :: "(string \<times> driver) list"

text \<open>
  The vendor's thermostat listing \<open>{Groups: [{groupName, Thermostats: [{Room,
  SerialNumber}]}]}\<close> and one thermostat's state. \<open>SerialNumber\<close> holds the text that
  \<open>stat.SerialNumber.toString()\<close> yields.
\<close>

record stat =
  Room :: string
  SerialNumber :: string

record tgroup =
  groupName :: string
  Thermostats :: "stat list"

record tstats =
  Groups :: "tgroup list option"

record statInfo =
  Temperature :: jsval
  SetPointTemp :: jsval
  OperatingMode :: jsval
  Heating :: jsval

text \<open>The inbound command message \<open>{cmd, value}\<close>.\<close>

record command_message =
  cmd :: string
  msg_value :: jsval

text \<open>A JavaScript \<open>Error\<close>, and what a call does: return a value or throw.\<close>

datatype err = Err (message: string) (stack: string)

datatype 'a outcome = Returns 'a | Throws err

text \<open>
  The calls the code makes on its collaborators: the vendor client (\<open>lib/nuheat.js\<close>),
  the session store (\<open>node-persist\<close>) and the hub interface (\<open>poly\<close>).
\<close>

datatype call =
    Authenticate
  | ListThermostats
  | FetchThermostat string
  | VendorSetPointHeat string jsval
  | Sleep nat
  | StorageGetItem string
  | GetNodes
  | GetCustomParam string
  | AddNode node
  | SaveCustomParams jsobj
  | SetDriver string string jsval
  | Query string

datatype level = LInfo | LError | LErrorStack

text \<open>
  What an execution leaves behind, in order. \<open>Log l text args\<close> is a call of
  \<open>logger.info\<close>, \<open>logger.error\<close> or \<open>logger.errorStack\<close> with its literal text and the
  values formatted into or appended to it; \<open>LogListing\<close> is the line that prints the
  listing as JSON. \<open>Call c\<close> is the moment a call is made; \<open>Resolved c\<close> and
  \<open>Rejected c e\<close> are the moments an \<open>await\<close> on its promise returns or throws. A
  promise nobody awaits leaves a \<open>Call\<close> and nothing else.
\<close>

datatype event =
    Log level string "jsval list"
  | LogListing string "tstats option"
  | Call call
  | Resolved call
  | Rejected call err
  | LockEnter string
  | LockLeave string

section \<open>Config reconciliation: \<open>initializeCustomParams\<close>\<close>

definition emailParam :: string where "emailParam = ''Username''"
definition pwParam :: string where "pwParam = ''Password''"
definition tempScale :: string where "tempScale = ''Scale''"

definition defaultParams :: jsobj where
  "defaultParams =
     [(emailParam, Str ''john@doe.net''),
      (pwParam, Str ''password''),
      (tempScale, Str ''Fahrenheit'')]"

text \<open>The orphan keys: those failing \<open>key in defaultParams\<close> or \<open>key in currentParams\<close>.\<close>

definition differentKeys :: "jsobj \<Rightarrow> string list" where
  "differentKeys currentParams =
     filter (\<lambda>key. \<not> has_property key defaultParams \<or> \<not> has_property key currentParams)
       (object_keys defaultParams @ object_keys currentParams)"

text \<open>The object the \<open>forEach\<close> over the default keys builds.\<close>

definition customParams :: "jsobj \<Rightarrow> jsobj" where
  "customParams currentParams =
     fold (\<lambda>key acc.
             set_property key
               (if truthy (get_property currentParams key)
                then get_property currentParams key
                else get_property defaultParams key) acc)
          (object_keys defaultParams) []"

definition initializeCustomParams :: "jsobj \<Rightarrow> event list" where
  "initializeCustomParams currentParams =
     (if differentKeys currentParams \<noteq> []
      then [Call (SaveCustomParams (customParams currentParams))]
      else [])"

text \<open>
  The spec's \<open>reconcile(current, defaults)\<close>: the parameters that are persisted once
  \<open>initializeCustomParams\<close> has run, namely the last mapping handed to
  \<open>saveCustomParams\<close>, or the current one when nothing was saved.
\<close>

definition persisted :: "jsobj \<Rightarrow> event list \<Rightarrow> jsobj" where
  "persisted current es =
     fold (\<lambda>e acc. case e of Call (SaveCustomParams m) \<Rightarrow> m | _ \<Rightarrow> acc) es current"

definition reconcile :: "jsobj \<Rightarrow> jsobj" where
  "reconcile current = persisted current (initializeCustomParams current)"

section \<open>Effects: state, exceptions and the trace\<close>

text \<open>
  A piece of code runs from a state (the local variables or the object \<open>this\<close>) to the
  events it leaves behind, the new state, and either a value or a thrown error.
\<close>

type_synonym ('s, 'a) io = "'s \<Rightarrow> event list \<times> 's \<times> 'a outcome"

definition events_of :: "event list \<times> 's \<times> 'a outcome \<Rightarrow> event list" where
  "events_of r = fst r"

definition state_of :: "event list \<times> 's \<times> 'a outcome \<Rightarrow> 's" where
  "state_of r = fst (snd r)"

definition outcome_of :: "event list \<times> 's \<times> 'a outcome \<Rightarrow> 'a outcome" where
  "outcome_of r = snd (snd r)"

definition io_return :: "'a \<Rightarrow> ('s, 'a) io" where
  "io_return x = (\<lambda>s. ([], s, Returns x))"

definition io_throw :: "err \<Rightarrow> ('s, 'a) io" where
  "io_throw e = (\<lambda>s. ([], s, Throws e))"

text \<open>Sequencing: a throw in the first part skips the second.\<close>

definition io_bind :: "('s, 'a) io \<Rightarrow> ('a \<Rightarrow> ('s, 'b) io) \<Rightarrow> ('s, 'b) io" where
  "io_bind m f =
     (\<lambda>s. case m s of
            (es, s', Returns x) \<Rightarrow> (case f x s' of (es', s'', r) \<Rightarrow> (es @ es', s'', r))
          | (es, s', Throws e) \<Rightarrow> (es, s', Throws e))"

definition io_seq :: "('s, 'a) io \<Rightarrow> ('s, 'b) io \<Rightarrow> ('s, 'b) io" where
  "io_seq m n = io_bind m (\<lambda>_. n)"

text \<open>\<open>try { m } catch (e) { h e }\<close>: the handler runs in the state the throw left.\<close>

definition try_catch :: "('s, 'a) io \<Rightarrow> (err \<Rightarrow> ('s, 'a) io) \<Rightarrow> ('s, 'a) io" where
  "try_catch m h =
     (\<lambda>s. case m s of
            (es, s', Throws e) \<Rightarrow> (case h e s' of (es', s'', r) \<Rightarrow> (es @ es', s'', r))
          | (es, s', Returns x) \<Rightarrow> (es, s', Returns x))"

definition emit :: "event \<Rightarrow> ('s, unit) io" where
  "emit ev = (\<lambda>s. ([ev], s, Returns ()))"

definition get_state :: "('s, 's) io" where
  "get_state = (\<lambda>s. ([], s, Returns s))"

definition set_state :: "'s \<Rightarrow> ('s, unit) io" where
  "set_state s' = (\<lambda>s. ([], s', Returns ()))"

text \<open>
  A synchronous call returns or throws on the spot. An asynchronous call is started
  (\<open>start_call\<close>) and its promise may later be awaited (\<open>await\<close>), which returns the
  value or throws the rejection; \<open>await_call\<close> is \<open>await f(...)\<close>.
\<close>

definition sync_call :: "call \<Rightarrow> 'a outcome \<Rightarrow> ('s, 'a) io" where
  "sync_call c r = (\<lambda>s. ([Call c], s, r))"

definition start_call :: "call \<Rightarrow> ('s, unit) io" where
  "start_call c = emit (Call c)"

definition await :: "call \<Rightarrow> 'a outcome \<Rightarrow> ('s, 'a) io" where
  "await c r = (\<lambda>s. ((case r of Returns x \<Rightarrow> [Resolved c] | Throws e \<Rightarrow> [Rejected c e]), s, r))"

definition await_call :: "call \<Rightarrow> 'a outcome \<Rightarrow> ('s, 'a) io" where
  "await_call c r = io_seq (start_call c) (await c r)"

section \<open>The thermostat nodes\<close>

text \<open>
  The constructors \<open>new ThermostatNode_F(poly, primary, address, name)\<close> and
  \<open>new ThermostatNode_C(poly, primary, address, name)\<close> with their driver tables.
\<close>

definition ThermostatNode_F :: "string \<Rightarrow> string \<Rightarrow> string \<Rightarrow> node" where
  "ThermostatNode_F p a n =
     \<lparr>nodeDefId = ''THERMOSTAT_F'', primary = p, address = a, name = n,
      drivers = [(''ST'', \<lparr>dvalue = Str ''0'', uom = 17\<rparr>),
                 (''CLISPH'', \<lparr>dvalue = Str ''0'', uom = 17\<rparr>),
                 (''CLIMD'', \<lparr>dvalue = Str ''0'', uom = 25\<rparr>),
                 (''CLIHCS'', \<lparr>dvalue = Str ''0'', uom = 66\<rparr>)]\<rparr>"

definition ThermostatNode_C :: "string \<Rightarrow> string \<Rightarrow> string \<Rightarrow> node" where
  "ThermostatNode_C p a n =
     \<lparr>nodeDefId = ''THERMOSTAT_C'', primary = p, address = a, name = n,
      drivers = [(''ST'', \<lparr>dvalue = Str ''0'', uom = 4\<rparr>),
                 (''CLISPH'', \<lparr>dvalue = Str ''0'', uom = 4\<rparr>),
                 (''CLIMD'', \<lparr>dvalue = Str ''0'', uom = 25\<rparr>),
                 (''CLIHCS'', \<lparr>dvalue = Str ''0'', uom = 66\<rparr>)]\<rparr>"

text \<open>
  \<open>this.setDriver(driver, value, true)\<close> of the hub interface's node class: the driver
  of that name takes the value, and the change is reported to the hub.
\<close>

definition setDriver :: "string \<Rightarrow> jsval \<Rightarrow> (node, unit) io" where
  "setDriver d v =
     (\<lambda>this. ([Call (SetDriver (address this) d v)],
              this\<lparr>drivers := map (\<lambda>(k, dr). if k = d then (k, dr\<lparr>dvalue := v\<rparr>) else (k, dr))
                                 (drivers this)\<rparr>,
              Returns ()))"

text \<open>The value of a driver, \<open>this.drivers[d].value\<close>.\<close>

definition driver_value :: "node \<Rightarrow> string \<Rightarrow> jsval option" where
  "driver_value this d = map_option dvalue (map_of (drivers this) d)"

subsection \<open>\<open>ThermostatNode_F.query\<close>\<close>

text \<open>
  \<open>CtoF\<close> is the vendor client's conversion (\<open>lib/nuheat.js\<close>); \<open>sessionR\<close> and \<open>statR\<close>
  are what \<open>storage.getItem('sessionId')\<close> and \<open>nuheat.thermostat(address)\<close> yield
  (\<open>None\<close> for \<open>null\<close>). The promise of \<open>authenticate()\<close> in the \<open>null\<close> branch is
  dropped: the call is started and never awaited.
\<close>

definition query_F ::
  "(jsval \<Rightarrow> jsval) \<Rightarrow> jsval outcome \<Rightarrow> statInfo option outcome \<Rightarrow> (node, unit) io" where
  "query_F CtoF sessionR statR =
     io_bind (await_call (StorageGetItem ''sessionId'') sessionR) (\<lambda>sessionId.
     io_bind get_state (\<lambda>this.
     io_bind (await_call (FetchThermostat (address this)) statR) (\<lambda>statInfo.
       case statInfo of
         None \<Rightarrow>
           io_seq (emit (Log LError ''Not Authenticated... Re-Authenticating...'' []))
                  (start_call Authenticate)
       | Some si \<Rightarrow>
           io_seq (emit (Log LInfo '''' [Temperature si]))
          (io_seq (emit (Log LInfo '''' [SetPointTemp si]))
          (io_seq (emit (Log LInfo '''' [OperatingMode si]))
          (io_seq (emit (Log LInfo '''' [Heating si]))
          (let temp = CtoF (Temperature si);
               setPoint = CtoF (SetPointTemp si);
               isHeating = (if truthy (Heating si) then Num 1 else Num 0)
           in io_seq (emit (Log LInfo ''Temperature: '' [temp]))
             (io_seq (emit (Log LInfo ''SetPoint: '' [setPoint]))
             (io_seq (setDriver ''ST'' temp)
             (io_seq (setDriver ''CLISPH'' setPoint)
             (io_seq (setDriver ''CLIMD'' (OperatingMode si))
                     (setDriver ''CLIHCS'' (Num 1)))))))))))))"

subsection \<open>\<open>setPointHeat\<close>, the handler of the \<open>CLISPH\<close> command\<close>

text \<open>
  \<open>FtoJC\<close> is the vendor client's conversion of the display value to the vendor's
  unit. The vendor write \<open>nuheat.setPointHeat(address, setPoint)\<close> is started and its
  result is not looked at.
\<close>

definition setPointHeat_F :: "(jsval \<Rightarrow> jsval) \<Rightarrow> command_message \<Rightarrow> (node, unit) io" where
  "setPointHeat_F FtoJC msg =
     io_seq (emit (Log LInfo ''setPointHeat: '' [msg_value msg]))
    (let setPoint = FtoJC (msg_value msg)
     in io_bind get_state (\<lambda>this.
        io_seq (start_call (VendorSetPointHeat (address this) setPoint))
               (setDriver ''CLISPH'' (msg_value msg))))"

definition setPointHeat_C :: "command_message \<Rightarrow> (node, unit) io" where
  "setPointHeat_C msg = emit (Log LInfo ''setPointHeat: '' [msg_value msg])"

text \<open>
  Both classes register \<open>CLISPH: this.setPointHeat\<close>; the method that runs is the one of
  the node's class, which its \<open>nodeDefId\<close> names. The controller registers no such
  command.
\<close>

definition setPointHeat :: "(jsval \<Rightarrow> jsval) \<Rightarrow> command_message \<Rightarrow> (node, unit) io" where
  "setPointHeat FtoJC msg =
     (\<lambda>this. if nodeDefId this = ''THERMOSTAT_F'' then setPointHeat_F FtoJC msg this
             else if nodeDefId this = ''THERMOSTAT_C'' then setPointHeat_C msg this
             else io_return () this)"

section \<open>Discovery: \<open>Controller.onDiscover\<close>\<close>

text \<open>
  The inner loop, over the thermostats of one group. \<open>scaleAt i\<close> is what
  \<open>getCustomParam('Scale')\<close> returns and \<open>addNodeR i\<close> what \<open>addNode\<close> does at the
  \<open>i\<close>-th thermostat of the pass (counted from 0 across the groups); the function
  returns the index of the next one. The listing is well-formed as the records above
  have it, and \<open>getCustomParam\<close> and \<open>sleep\<close> do not throw.
\<close>

fun discoverThermostats ::
  "(nat \<Rightarrow> jsval) \<Rightarrow> (nat \<Rightarrow> string outcome) \<Rightarrow> nat \<Rightarrow> stat list \<Rightarrow> ('s, nat) io" where
  "discoverThermostats scaleAt addNodeR i [] = io_return i"
| "discoverThermostats scaleAt addNodeR i (stat # stats) =
     (let name = Room stat; address = SerialNumber stat
      in io_bind (sync_call (GetCustomParam ''Scale'') (Returns (scaleAt i))) (\<lambda>scale.
         io_seq
           (if scale = Str ''Fahrenheit''
            then try_catch
                   (io_bind (await_call (AddNode (ThermostatNode_F address address name))
                               (addNodeR i))
                      (\<lambda>result. emit (Log LInfo ''Add node worked: %s'' [Str result])))
                   (\<lambda>err. emit (Log LErrorStack ''Add node failed:'' [Str (stack err)]))
            else try_catch
                   (io_bind (await_call (AddNode (ThermostatNode_C address address name))
                               (addNodeR i))
                      (\<lambda>result. emit (Log LInfo ''Add node worked: %s'' [Str result])))
                   (\<lambda>err. emit (Log LErrorStack ''Add node failed:'' [Str (stack err)])))
        (io_seq (await_call (Sleep 1000) (Returns ()))
                (discoverThermostats scaleAt addNodeR (Suc i) stats))))"

fun discoverGroups ::
  "(nat \<Rightarrow> jsval) \<Rightarrow> (nat \<Rightarrow> string outcome) \<Rightarrow> nat \<Rightarrow> tgroup list \<Rightarrow> ('s, nat) io" where
  "discoverGroups scaleAt addNodeR i [] = io_return i"
| "discoverGroups scaleAt addNodeR i (grp # groups) =
     io_seq (emit (Log LInfo ''Group Name: '' [Str (groupName grp)]))
    (io_bind (discoverThermostats scaleAt addNodeR i (Thermostats grp)) (\<lambda>j.
       discoverGroups scaleAt addNodeR j groups))"

text \<open>
  \<open>onDiscover\<close>. The state is the local variable \<open>tstats\<close>. In
  \<open>await this.nuheat.authenticate().then(tstats = await this.nuheat.thermostats())\<close>
  the call of \<open>authenticate()\<close> is made first, then the argument of \<open>then\<close> is evaluated
  (the listing is fetched, awaited and assigned), and only then is the promise of
  \<open>authenticate()\<close> awaited. \<open>authR\<close> and \<open>listingR\<close> are what the two promises yield.
\<close>

definition onDiscover ::
  "unit outcome \<Rightarrow> tstats option outcome \<Rightarrow> (nat \<Rightarrow> jsval) \<Rightarrow> (nat \<Rightarrow> string outcome) \<Rightarrow>
     (tstats option, unit) io" where
  "onDiscover authR listingR scaleAt addNodeR =
     io_seq (set_state (Some \<lparr>Groups = None\<rparr>))
    (io_seq (emit (Log LInfo ''Getting Thermostats'' []))
    (io_seq
       (try_catch
          (io_seq (start_call Authenticate)
          (io_bind (await_call ListThermostats listingR) (\<lambda>listing.
           io_seq (set_state listing)
                  (await Authenticate authR))))
          (\<lambda>error. emit (Log LError ''onDiscover(): Authenticate failed'' [])))
    (io_bind get_state (\<lambda>tstats.
     io_seq (emit (LogListing ''Thermostat Data: '' tstats))
       (case tstats of
          None \<Rightarrow> emit (Log LError ''No thermostats found.'' [])
        | Some t \<Rightarrow>
            (case Groups t of
               None \<Rightarrow> io_return ()
             | Some groups \<Rightarrow>
                 io_seq (discoverGroups scaleAt addNodeR 0 groups) (io_return ())))))))"

text \<open>What a discovery pass did, read off its trace.\<close>

definition attempted :: "event list \<Rightarrow> node list" where
  "attempted es = concat (map (\<lambda>e. case e of Call (AddNode n) \<Rightarrow> [n] | _ \<Rightarrow> []) es)"

definition registered :: "event list \<Rightarrow> node list" where
  "registered es = concat (map (\<lambda>e. case e of Resolved (AddNode n) \<Rightarrow> [n] | _ \<Rightarrow> []) es)"

definition scale_reads :: "event list \<Rightarrow> nat" where
  "scale_reads es = length (filter (\<lambda>e. e = Call (GetCustomParam ''Scale'')) es)"

definition add_failures :: "event list \<Rightarrow> nat" where
  "add_failures es =
     length (filter (\<lambda>e. case e of Log LErrorStack t a \<Rightarrow> t = ''Add node failed:'' | _ \<Rightarrow> False) es)"

text \<open>
  For stating what a discovery pass does: the node class the scale selects, the
  thermostats of a listing in the order the loops visit them, and how many of the
  \<open>addNode\<close> calls numbered \<open>i, ..., i + n - 1\<close> throw.
\<close>

definition variant_of :: "jsval \<Rightarrow> string" where
  "variant_of scale = (if scale = Str ''Fahrenheit'' then ''THERMOSTAT_F'' else ''THERMOSTAT_C'')"

definition node_for :: "jsval \<Rightarrow> stat \<Rightarrow> node" where
  "node_for scale st =
     (if scale = Str ''Fahrenheit''
      then ThermostatNode_F (SerialNumber st) (SerialNumber st) (Room st)
      else ThermostatNode_C (SerialNumber st) (SerialNumber st) (Room st))"

definition listed :: "tgroup list \<Rightarrow> stat list" where
  "listed groups = concat (map Thermostats groups)"

definition failing :: "(nat \<Rightarrow> string outcome) \<Rightarrow> nat \<Rightarrow> nat \<Rightarrow> nat" where
  "failing addNodeR i n =
     length (filter (\<lambda>j. case addNodeR j of Throws e \<Rightarrow> True | Returns r \<Rightarrow> False) [i..<i + n])"

text \<open>
  The events one pass through the body of the inner loop leaves, given the scale it
  read and what \<open>addNode\<close> did (lemma \<open>discoverThermostats_Cons\<close> below).
\<close>

definition body_events :: "jsval \<Rightarrow> string outcome \<Rightarrow> stat \<Rightarrow> event list" where
  "body_events scale added st =
     [Call (GetCustomParam ''Scale''), Call (AddNode (node_for scale st))] @
     (case added of
        Returns res \<Rightarrow>
          [Resolved (AddNode (node_for scale st)), Log LInfo ''Add node worked: %s'' [Str res]]
      | Throws e \<Rightarrow>
          [Rejected (AddNode (node_for scale st)) e,
           Log LErrorStack ''Add node failed:'' [Str (stack e)]]) @
     [Call (Sleep 1000), Resolved (Sleep 1000)]"

section \<open>Polling: \<open>doPoll\<close>\<close>

text \<open>
  \<open>lock.acquire(key, fn)\<close> of the \<open>async-lock\<close> package, with its \<open>timeout\<close> option set:
  either the lock is obtained, \<open>fn\<close> runs and the lock is given back whatever \<open>fn\<close>
  does, and the promise settles as \<open>fn\<close> did; or the wait times out, \<open>fn\<close> never runs
  and the promise rejects with the package's timeout error.
\<close>

datatype acquisition = Acquired | TimedOut err

definition lock_acquire :: "string \<Rightarrow> acquisition \<Rightarrow> ('s, 'a) io \<Rightarrow> ('s, 'a) io" where
  "lock_acquire key acq fn =
     (case acq of
        TimedOut e \<Rightarrow> io_throw e
      | Acquired \<Rightarrow>
          io_seq (emit (LockEnter key))
                 (\<lambda>s. case fn s of (es, s', r) \<Rightarrow> (es @ [LockLeave key], s', r)))"

text \<open>
  The nodes \<open>poly.getNodes()\<close> returns, by address; for each, \<open>None\<close> when it has no
  \<open>query\<close> property, else what the call \<open>nodes[address].query()\<close> does before it hands
  back its promise, which is not awaited.
\<close>

type_synonym polled_nodes = "(string \<times> unit outcome option) list"

fun queryNodes :: "polled_nodes \<Rightarrow> ('s, unit) io" where
  "queryNodes [] = io_return ()"
| "queryNodes ((addr, q) # rest) =
     io_seq (case q of None \<Rightarrow> io_return () | Some r \<Rightarrow> sync_call (Query addr) r)
            (queryNodes rest)"

definition pollSection :: "bool \<Rightarrow> polled_nodes outcome \<Rightarrow> ('s, unit) io" where
  "pollSection longPoll nodesR =
     io_seq (emit (Log LInfo ''%s'' [Str (if longPoll then ''Long poll'' else ''Short poll'')]))
    (io_bind (sync_call GetNodes nodesR) (\<lambda>nodes.
       if longPoll
       then emit (Log LInfo ''Long Poll: Nothing yet...'' [])
       else io_seq (emit (Log LInfo ''Short Poll: Update nodes'' []))
                   (queryNodes nodes)))"

definition doPoll :: "bool \<Rightarrow> acquisition \<Rightarrow> polled_nodes outcome \<Rightarrow> ('s, unit) io" where
  "doPoll longPoll acq nodesR =
     try_catch (lock_acquire ''poll'' acq (pollSection longPoll nodesR))
       (\<lambda>err. emit (Log LError ''Error while polling: %s'' [Str (message err)]))"

text \<open>Whether the lock \<open>key\<close> is held once the events have happened.\<close>

definition held :: "string \<Rightarrow> event list \<Rightarrow> bool" where
  "held key es =
     fold (\<lambda>e h. if e = LockEnter key then True else if e = LockLeave key then False else h)
          es False"

text \<open>All values that were handed to the logger.\<close>

definition logged_values :: "event list \<Rightarrow> jsval list" where
  "logged_values es = concat (map (\<lambda>e. case e of Log l t a \<Rightarrow> a | _ \<Rightarrow> []) es)"

section \<open>Reading a trace\<close>

text \<open>How often a call was made, and whether anybody awaited its promise.\<close>

definition count_calls :: "call \<Rightarrow> event list \<Rightarrow> nat" where
  "count_calls c es = length (filter (\<lambda>e. e = Call c) es)"

definition awaited :: "call \<Rightarrow> event list \<Rightarrow> bool" where
  "awaited c es =
     list_ex (\<lambda>e. case e of Resolved c' \<Rightarrow> c' = c | Rejected c' x \<Rightarrow> c' = c | _ \<Rightarrow> False) es"

text \<open>The driver writes \<open>(address, driver, value)\<close> and the vendor writes \<open>(address, setPoint)\<close>.\<close>

definition driver_writes :: "event list \<Rightarrow> (string \<times> string \<times> jsval) list" where
  "driver_writes es =
     concat (map (\<lambda>e. case e of Call (SetDriver a d v) \<Rightarrow> [(a, d, v)] | _ \<Rightarrow> []) es)"

definition vendor_writes :: "event list \<Rightarrow> (string \<times> jsval) list" where
  "vendor_writes es =
     concat (map (\<lambda>e. case e of Call (VendorSetPointHeat a v) \<Rightarrow> [(a, v)] | _ \<Rightarrow> []) es)"

text \<open>
  Modelled from the spec: the conversion \<open>FtoJC\<close> of the vendor client
  (\<open>lib/nuheat.js\<close>), which is not among the sources. The spec has the set-point
  command convert the inbound Fahrenheit value to the vendor's Celsius unit, 72 giving
  about 22.2. Values that are not numbers are left alone here.
\<close>

definition FtoJC_spec :: "jsval \<Rightarrow> jsval" where
  "FtoJC_spec v = (case v of Num f \<Rightarrow> Num ((f - 32) * 5 / 9) | _ \<Rightarrow> v)"

section \<open>Properties of the config reconciliation\<close>

lemma default_keys: "object_keys defaultParams = [''Username'', ''Password'', ''Scale'']"
  by (simp add: object_keys_def defaultParams_def emailParam_def pwParam_def tempScale_def)

lemma default_keys_not_inherited:
  "''Username'' \<notin> set object_prototype_names"
  "''Password'' \<notin> set object_prototype_names"
  "''Scale'' \<notin> set object_prototype_names"
  by (simp_all add: object_prototype_names_def)

lemma customParams_unfolded:
  "customParams current =
     map (\<lambda>key. (key, if truthy (get_property current key)
                      then get_property current key
                      else get_property defaultParams key))
       [''Username'', ''Password'', ''Scale'']"
  unfolding customParams_def default_keys
  by (simp add: set_property_def)

lemma customParams_keys: "object_keys (customParams current) = object_keys defaultParams"
  unfolding customParams_unfolded default_keys
  by (simp add: object_keys_def)

lemma differentKeys_customParams: "differentKeys (customParams current) = []"
  by (simp add: differentKeys_def has_property_def customParams_keys)

lemma reconcile_cases:
  "reconcile current = (if differentKeys current \<noteq> [] then customParams current else current)"
  by (simp add: reconcile_def initializeCustomParams_def persisted_def)

lemma initializeCustomParams_reconcile: "initializeCustomParams (reconcile current) = []"
  by (simp add: reconcile_cases initializeCustomParams_def differentKeys_customParams)

lemma differentKeys_nonempty:
  assumes "set (object_keys current) \<inter> set object_prototype_names = {}"
      and "(set (object_keys current) - set (object_keys defaultParams)) \<union>
           (set (object_keys defaultParams) - set (object_keys current)) \<noteq> {}"
  shows "differentKeys current \<noteq> []"
proof -
  from assms(2) obtain k where k:
    "k \<in> set (object_keys current) \<and> k \<notin> set (object_keys defaultParams) \<or>
     k \<in> set (object_keys defaultParams) \<and> k \<notin> set (object_keys current)"
    by blast
  have dflt: "set (object_keys defaultParams) \<inter> set object_prototype_names = {}"
    by (simp add: default_keys default_keys_not_inherited)
  from k have "k \<in> set (differentKeys current)"
    using assms(1) dflt by (auto simp: differentKeys_def has_property_def)
  then show ?thesis by auto
qed

lemma customParams_value:
  assumes "key \<in> set (object_keys defaultParams)"
  shows "map_of (customParams current) key =
           Some (case map_of current key of
                   Some v \<Rightarrow> if truthy v then v else get_property defaultParams key
                 | None \<Rightarrow> get_property defaultParams key)"
  using assms unfolding customParams_unfolded default_keys
  by (auto simp: get_property_def default_keys_not_inherited split: option.splits)

text \<open>
  Claim C3 fails as stated, in two ways. A parameter that is present with the empty
  string as its value is not kept: with \<open>{Username: ''}\<close> as the current parameters
  the keys \<open>Password\<close> and \<open>Scale\<close> are orphans, so the rewrite branch runs, and the
  mapping that is saved holds the default user name, not the current (empty) one. And
  an extra key that is a property name every object inherits, such as \<open>toString\<close>,
  passes the test \<open>key in defaultParams\<close>: with the defaults plus that key as the
  current parameters, the key is present in exactly one of the two mappings and yet
  nothing is saved.
\<close>

theorem initializeCustomParams_counterexample:
  "differentKeys [(''Username'', Str '''')] = [''Password'', ''Scale''] \<and>
   map_of [(''Username'', Str '''')] ''Username'' = Some (Str '''') \<and>
   initializeCustomParams [(''Username'', Str '''')] =
     [Call (SaveCustomParams [(''Username'', Str ''john@doe.net''),
                              (''Password'', Str ''password''),
                              (''Scale'', Str ''Fahrenheit'')])] \<and>
   get_property (customParams [(''Username'', Str '''')]) ''Username''
     \<noteq> get_property [(''Username'', Str '''')] ''Username'' \<and>
   ''toString'' \<in> set (object_keys (defaultParams @ [(''toString'', Str ''x'')]))
                    - set (object_keys defaultParams) \<and>
   initializeCustomParams (defaultParams @ [(''toString'', Str ''x'')]) = []"
  by code_simp

text \<open>
  Claim C3, amended. For every current mapping none of whose keys is a property name
  inherited from \<open>Object.prototype\<close>: if some key is present in exactly one of the
  current mapping and the defaults, then \<open>initializeCustomParams\<close> calls
  \<open>saveCustomParams\<close> once, with a mapping whose keys are exactly the default keys (in
  the defaults' order), each mapped to its current value when that is present and truthy
  (for a string: not empty), and to its default value otherwise.
\<close>

theorem initializeCustomParams_rewrite:
  assumes "set (object_keys current) \<inter> set object_prototype_names = {}"
      and "(set (object_keys current) - set (object_keys defaultParams)) \<union>
           (set (object_keys defaultParams) - set (object_keys current)) \<noteq> {}"
  shows "initializeCustomParams current = [Call (SaveCustomParams (customParams current))] \<and>
         object_keys (customParams current) = object_keys defaultParams \<and>
         (\<forall>key \<in> set (object_keys defaultParams).
            map_of (customParams current) key =
              Some (case map_of current key of
                      Some v \<Rightarrow> if truthy v then v else get_property defaultParams key
                    | None \<Rightarrow> get_property defaultParams key))"
proof -
  have "differentKeys current \<noteq> []"
    using assms by (rule differentKeys_nonempty)
  then have "initializeCustomParams current = [Call (SaveCustomParams (customParams current))]"
    by (simp add: initializeCustomParams_def)
  then show ?thesis
    by (simp add: customParams_keys customParams_value)
qed

theorem initializeCustomParams_rewrite_witness:
  "set (object_keys [(''Username'', Str ''me@example.org''), (''Legacy'', Str ''1'')])
     \<inter> set object_prototype_names = {} \<and>
   (set (object_keys [(''Username'', Str ''me@example.org''), (''Legacy'', Str ''1'')])
      - set (object_keys defaultParams)) \<union>
   (set (object_keys defaultParams)
      - set (object_keys [(''Username'', Str ''me@example.org''), (''Legacy'', Str ''1'')]))
     \<noteq> {} \<and>
   initializeCustomParams [(''Username'', Str ''me@example.org''), (''Legacy'', Str ''1'')] =
     [Call (SaveCustomParams [(''Username'', Str ''me@example.org''),
                              (''Password'', Str ''password''),
                              (''Scale'', Str ''Fahrenheit'')])]"
proof -
  let ?c = "[(''Username'', Str ''me@example.org''), (''Legacy'', Str ''1'')]"
  have h1: "set (object_keys ?c) \<inter> set object_prototype_names = {}"
    by (simp add: object_keys_def object_prototype_names_def)
  have h2: "(set (object_keys ?c) - set (object_keys defaultParams)) \<union>
            (set (object_keys defaultParams) - set (object_keys ?c)) \<noteq> {}"
    by (simp add: default_keys) (simp add: object_keys_def)
  have v: "customParams ?c = [(''Username'', Str ''me@example.org''),
                              (''Password'', Str ''password''),
                              (''Scale'', Str ''Fahrenheit'')]"
    by code_simp
  from initializeCustomParams_rewrite [OF h1 h2] show ?thesis
    using h1 h2 v by simp
qed

text \<open>
  Claim C4. Reconciling is idempotent: for every current mapping, reconciling the
  reconciled parameters gives them back unchanged, and \<open>initializeCustomParams\<close> run on
  them saves nothing (no further rewrite is signalled).
\<close>

theorem reconcile_idempotent:
  "reconcile (reconcile current) = reconcile current \<and>
   initializeCustomParams (reconcile current) = []"
proof -
  have none: "initializeCustomParams (reconcile current) = []"
    by (rule initializeCustomParams_reconcile)
  have "reconcile (reconcile current) = persisted (reconcile current) []"
    unfolding reconcile_def [of "reconcile current"] none ..
  then show ?thesis
    using none by (simp add: persisted_def)
qed

theorem reconcile_idempotent_witness:
  "reconcile [(''Username'', Str ''me@example.org''), (''Legacy'', Str ''1'')] =
     [(''Username'', Str ''me@example.org''), (''Password'', Str ''password''),
      (''Scale'', Str ''Fahrenheit'')] \<and>
   reconcile (reconcile [(''Username'', Str ''me@example.org''), (''Legacy'', Str ''1'')]) =
     [(''Username'', Str ''me@example.org''), (''Password'', Str ''password''),
      (''Scale'', Str ''Fahrenheit'')]"
proof -
  have v: "reconcile [(''Username'', Str ''me@example.org''), (''Legacy'', Str ''1'')] =
     [(''Username'', Str ''me@example.org''), (''Password'', Str ''password''),
      (''Scale'', Str ''Fahrenheit'')]"
    by code_simp
  from reconcile_idempotent [of "[(''Username'', Str ''me@example.org''), (''Legacy'', Str ''1'')]"]
  show ?thesis
    using v by simp
qed

section \<open>Properties of the thermostat nodes\<close>

lemmas io_defs = io_return_def io_throw_def io_bind_def io_seq_def try_catch_def emit_def
  get_state_def set_state_def sync_call_def start_call_def await_def await_call_def

lemmas run_defs = events_of_def state_of_def outcome_of_def

lemma query_F_null:
  "query_F CtoF (Returns sid) (Returns None) this =
     ([Call (StorageGetItem ''sessionId''), Resolved (StorageGetItem ''sessionId''),
       Call (FetchThermostat (address this)), Resolved (FetchThermostat (address this)),
       Log LError ''Not Authenticated... Re-Authenticating...'' [], Call Authenticate],
      this, Returns ())"
  by (simp add: query_F_def io_defs)

lemma setPointHeat_F_run:
  "setPointHeat_F FtoJC msg this =
     ([Log LInfo ''setPointHeat: '' [msg_value msg],
       Call (VendorSetPointHeat (address this) (FtoJC (msg_value msg))),
       Call (SetDriver (address this) ''CLISPH'' (msg_value msg))],
      this\<lparr>drivers :=
             map (\<lambda>(k, dr). if k = ''CLISPH'' then (k, dr\<lparr>dvalue := msg_value msg\<rparr>) else (k, dr))
               (drivers this)\<rparr>,
      Returns ())"
  by (simp add: setPointHeat_F_def setDriver_def io_defs)

lemma map_of_driver_update:
  "map_of (map (\<lambda>(k, dr). if k = d then (k, dr\<lparr>dvalue := v\<rparr>) else (k, dr)) xs) d =
     map_option (\<lambda>dr. dr\<lparr>dvalue := v\<rparr>) (map_of xs d)"
  by (induction xs) auto

text \<open>
  Claim C8. When the fetch of a Fahrenheit thermostat's state returns \<open>null\<close>, \<open>query\<close>
  writes no driver and leaves the node as it was, calls \<open>authenticate()\<close> exactly once
  and does not await it, fetches the state only once (no retry), and returns normally.
\<close>

theorem query_F_session_expired:
  "driver_writes (events_of (query_F CtoF (Returns sid) (Returns None) this)) = [] \<and>
   state_of (query_F CtoF (Returns sid) (Returns None) this) = this \<and>
   count_calls Authenticate (events_of (query_F CtoF (Returns sid) (Returns None) this)) = 1 \<and>
   \<not> awaited Authenticate (events_of (query_F CtoF (Returns sid) (Returns None) this)) \<and>
   count_calls (FetchThermostat (address this))
     (events_of (query_F CtoF (Returns sid) (Returns None) this)) = 1 \<and>
   outcome_of (query_F CtoF (Returns sid) (Returns None) this) = Returns ()"
  by (simp add: query_F_null run_defs driver_writes_def count_calls_def awaited_def)

theorem query_F_session_expired_witness:
  "events_of (query_F (\<lambda>v. v) (Returns (Str ''abc'')) (Returns None)
                (ThermostatNode_F ''12345'' ''12345'' ''Bath'')) =
     [Call (StorageGetItem ''sessionId''), Resolved (StorageGetItem ''sessionId''),
      Call (FetchThermostat ''12345''), Resolved (FetchThermostat ''12345''),
      Log LError ''Not Authenticated... Re-Authenticating...'' [], Call Authenticate] \<and>
   driver_writes (events_of (query_F (\<lambda>v. v) (Returns (Str ''abc'')) (Returns None)
                (ThermostatNode_F ''12345'' ''12345'' ''Bath''))) = [] \<and>
   count_calls Authenticate (events_of (query_F (\<lambda>v. v) (Returns (Str ''abc'')) (Returns None)
                (ThermostatNode_F ''12345'' ''12345'' ''Bath''))) = 1"
  using query_F_session_expired
          [of "\<lambda>v. v" "Str ''abc''" "ThermostatNode_F ''12345'' ''12345'' ''Bath''"]
  by (simp add: query_F_null run_defs ThermostatNode_F_def)

text \<open>
  Claim C9 fails as stated for the Celsius variant: its handler neither writes to the
  vendor nor sets the driver. A set-point command with value 22 on a fresh Celsius node
  leaves no vendor write in the trace and the \<open>CLISPH\<close> driver at its initial \<open>'0'\<close>.
\<close>

theorem setPointHeat_Celsius_counterexample:
  "vendor_writes (events_of (setPointHeat (\<lambda>v. v) \<lparr>cmd = ''CLISPH'', msg_value = Str ''22''\<rparr>
      (ThermostatNode_C ''12345'' ''12345'' ''Bath''))) = [] \<and>
   driver_value (state_of (setPointHeat (\<lambda>v. v) \<lparr>cmd = ''CLISPH'', msg_value = Str ''22''\<rparr>
      (ThermostatNode_C ''12345'' ''12345'' ''Bath''))) ''CLISPH'' = Some (Str ''0'')"
  by (simp add: setPointHeat_def setPointHeat_C_def emit_def run_defs vendor_writes_def
      driver_value_def ThermostatNode_C_def)

text \<open>
  Claim C9, amended to the Fahrenheit variant. For every Fahrenheit thermostat node
  (with its \<open>CLISPH\<close> driver), handling the set-point command logs the inbound value,
  starts the vendor write for the node's address with the converted value
  \<open>FtoJC value\<close>, does not await that write, sets the \<open>CLISPH\<close> driver to the inbound,
  unconverted value, and returns normally.
\<close>

theorem setPointHeat_Fahrenheit:
  assumes "nodeDefId this = ''THERMOSTAT_F''"
      and "driver_value this ''CLISPH'' \<noteq> None"
  shows "events_of (setPointHeat FtoJC msg this) =
           [Log LInfo ''setPointHeat: '' [msg_value msg],
            Call (VendorSetPointHeat (address this) (FtoJC (msg_value msg))),
            Call (SetDriver (address this) ''CLISPH'' (msg_value msg))] \<and>
         \<not> awaited (VendorSetPointHeat (address this) (FtoJC (msg_value msg)))
             (events_of (setPointHeat FtoJC msg this)) \<and>
         driver_value (state_of (setPointHeat FtoJC msg this)) ''CLISPH'' = Some (msg_value msg) \<and>
         outcome_of (setPointHeat FtoJC msg this) = Returns ()"
  using assms
  by (auto simp add: setPointHeat_def setPointHeat_F_run run_defs awaited_def driver_value_def
      map_of_driver_update)

text \<open>
  The scenario of the spec, with the conversion as the spec describes it: value 72 on a
  Fahrenheit node sends \<open>200 / 9\<close>, about 22.2, to the vendor and sets the driver to 72.
\<close>

theorem setPointHeat_Fahrenheit_witness:
  "nodeDefId (ThermostatNode_F ''12345'' ''12345'' ''Bath'') = ''THERMOSTAT_F'' \<and>
   driver_value (ThermostatNode_F ''12345'' ''12345'' ''Bath'') ''CLISPH'' \<noteq> None \<and>
   vendor_writes (events_of (setPointHeat FtoJC_spec \<lparr>cmd = ''CLISPH'', msg_value = Num 72\<rparr>
      (ThermostatNode_F ''12345'' ''12345'' ''Bath''))) = [(''12345'', Num (200 / 9))] \<and>
   driver_value (state_of (setPointHeat FtoJC_spec \<lparr>cmd = ''CLISPH'', msg_value = Num 72\<rparr>
      (ThermostatNode_F ''12345'' ''12345'' ''Bath''))) ''CLISPH'' = Some (Num 72) \<and>
   \<bar>200 / 9 - 22.2\<bar> < (0.03 :: real)"
proof -
  let ?n = "ThermostatNode_F ''12345'' ''12345'' ''Bath''"
  have h1: "nodeDefId ?n = ''THERMOSTAT_F''"
    by (simp add: ThermostatNode_F_def)
  have h2: "driver_value ?n ''CLISPH'' \<noteq> None"
    by (simp add: ThermostatNode_F_def driver_value_def)
  have a: "address ?n = ''12345''"
    by (simp add: ThermostatNode_F_def)
  from setPointHeat_Fahrenheit [OF h1 h2, of FtoJC_spec "\<lparr>cmd = ''CLISPH'', msg_value = Num 72\<rparr>"]
  show ?thesis
    using h1 h2 by (simp add: a vendor_writes_def FtoJC_spec_def)
qed

text \<open>
  Claim C10. On a Celsius thermostat node the handler of \<open>CLISPH\<close> only logs the inbound
  value: for every message the trace is that one log line, no vendor write and no
  driver write is made, and the node, with all its driver values, is unchanged.
\<close>

theorem setPointHeat_Celsius_only_logs:
  assumes "nodeDefId this = ''THERMOSTAT_C''"
  shows "events_of (setPointHeat FtoJC msg this) = [Log LInfo ''setPointHeat: '' [msg_value msg]] \<and>
         vendor_writes (events_of (setPointHeat FtoJC msg this)) = [] \<and>
         driver_writes (events_of (setPointHeat FtoJC msg this)) = [] \<and>
         state_of (setPointHeat FtoJC msg this) = this \<and>
         outcome_of (setPointHeat FtoJC msg this) = Returns ()"
  using assms
  by (simp add: setPointHeat_def setPointHeat_C_def emit_def run_defs vendor_writes_def
      driver_writes_def)

theorem setPointHeat_Celsius_only_logs_witness:
  "nodeDefId (ThermostatNode_C ''67890'' ''67890'' ''Hall'') = ''THERMOSTAT_C'' \<and>
   events_of (setPointHeat FtoJC_spec \<lparr>cmd = ''CLISPH'', msg_value = Num 21\<rparr>
      (ThermostatNode_C ''67890'' ''67890'' ''Hall'')) = [Log LInfo ''setPointHeat: '' [Num 21]] \<and>
   state_of (setPointHeat FtoJC_spec \<lparr>cmd = ''CLISPH'', msg_value = Num 21\<rparr>
      (ThermostatNode_C ''67890'' ''67890'' ''Hall'')) = ThermostatNode_C ''67890'' ''67890'' ''Hall''"
proof -
  have h: "nodeDefId (ThermostatNode_C ''67890'' ''67890'' ''Hall'') = ''THERMOSTAT_C''"
    by (simp add: ThermostatNode_C_def)
  from setPointHeat_Celsius_only_logs [OF h, of FtoJC_spec "\<lparr>cmd = ''CLISPH'', msg_value = Num 21\<rparr>"]
  show ?thesis
    using h by simp
qed

section \<open>Properties of polling\<close>

lemma held_append_leave: "held key (es @ [LockLeave key]) = False"
  by (simp add: held_def)

lemma held_append_log: "held key (es @ [Log l t a]) = held key es"
  by (simp add: held_def)

lemma lock_acquire_Acquired:
  "lock_acquire key Acquired fn s =
     (case fn s of (es, s', r) \<Rightarrow> (LockEnter key # es @ [LockLeave key], s', r))"
  by (simp add: lock_acquire_def io_defs split: prod.splits)

lemma lock_acquire_TimedOut: "lock_acquire key (TimedOut e) fn s = ([], s, Throws e)"
  by (simp add: lock_acquire_def io_defs)

lemma doPoll_TimedOut:
  "doPoll longPoll (TimedOut e) nodesR s =
     ([Log LError ''Error while polling: %s'' [Str (message e)]], s, Returns ())"
  by (simp add: doPoll_def lock_acquire_TimedOut try_catch_def emit_def)

lemma doPoll_Acquired:
  assumes "pollSection longPoll nodesR s = (es, s', r)"
  shows "doPoll longPoll Acquired nodesR s =
     (case r of
        Returns x \<Rightarrow> (LockEnter ''poll'' # es @ [LockLeave ''poll''], s', Returns ())
      | Throws e \<Rightarrow> (LockEnter ''poll'' # es @ [LockLeave ''poll'',
                        Log LError ''Error while polling: %s'' [Str (message e)]], s', Returns ()))"
  using assms
  by (simp add: doPoll_def lock_acquire_Acquired try_catch_def emit_def split: outcome.splits)

text \<open>
  Claim C2 fails as stated in one point: the error is logged with its message only, not
  with its stack. When \<open>getNodes\<close> throws inside the locked section, the values handed
  to the logger during the poll are the poll's kind and the error's message; the stack
  is not among them.
\<close>

theorem doPoll_stack_not_logged_counterexample:
  "logged_values (events_of
      (doPoll False Acquired (Throws (Err ''boom'' ''Error: boom at getNodes'')) ())) =
     [Str ''Short poll'', Str ''boom''] \<and>
   Str (stack (Err ''boom'' ''Error: boom at getNodes'')) \<notin> set (logged_values (events_of
      (doPoll False Acquired (Throws (Err ''boom'' ''Error: boom at getNodes'')) ())))"
  by code_simp

text \<open>
  Claim C2, amended. For either kind of poll, whether the lock is obtained or the wait
  for it times out, and whatever the locked section does: \<open>doPoll\<close> returns normally;
  the lock is not held when it returns; an error thrown by the locked section or by the
  acquisition is caught and the last thing \<open>doPoll\<close> does is log its message (not its
  stack); and on a timeout that log line is all that happens, so the pass is dropped.
\<close>

theorem doPoll_never_throws:
  "outcome_of (doPoll longPoll acq nodesR s) = Returns () \<and>
   \<not> held ''poll'' (events_of (doPoll longPoll acq nodesR s)) \<and>
   (\<forall>e. outcome_of (lock_acquire ''poll'' acq (pollSection longPoll nodesR) s) = Throws e \<longrightarrow>
        last (events_of (doPoll longPoll acq nodesR s)) =
          Log LError ''Error while polling: %s'' [Str (message e)]) \<and>
   (\<forall>e. acq = TimedOut e \<longrightarrow>
        events_of (doPoll longPoll acq nodesR s) =
          [Log LError ''Error while polling: %s'' [Str (message e)]])"
proof (cases acq)
  case Acquired
  obtain es s' r where p: "pollSection longPoll nodesR s = (es, s', r)"
    by (cases "pollSection longPoll nodesR s") auto
  show ?thesis
  proof (cases r)
    case (Returns x)
    then show ?thesis
      using Acquired doPoll_Acquired [OF p] p
        held_append_leave [of "''poll''" "LockEnter ''poll'' # es"]
      by (simp add: run_defs lock_acquire_Acquired)
  next
    case (Throws e)
    then show ?thesis
      using Acquired doPoll_Acquired [OF p] p
        held_append_leave [of "''poll''" "LockEnter ''poll'' # es"]
        held_append_log [of "''poll''" "LockEnter ''poll'' # es @ [LockLeave ''poll'']"]
      by (simp add: run_defs lock_acquire_Acquired)
  qed
next
  case (TimedOut e)
  then show ?thesis
    by (simp add: doPoll_TimedOut lock_acquire_TimedOut run_defs held_def)
qed

text \<open>
  A short poll over a controller and a thermostat whose \<open>query\<close> throws, and a poll whose
  wait for the lock times out.
\<close>

theorem doPoll_never_throws_witness:
  "outcome_of (lock_acquire ''poll'' Acquired
      (pollSection False (Returns [(''controller'', Some (Returns ())),
                                   (''12345'', Some (Throws (Err ''boom'' ''at query'')))])) ())
     = Throws (Err ''boom'' ''at query'') \<and>
   events_of (doPoll False Acquired
      (Returns [(''controller'', Some (Returns ())),
                (''12345'', Some (Throws (Err ''boom'' ''at query'')))]) ()) =
     [LockEnter ''poll'', Log LInfo ''%s'' [Str ''Short poll''], Call GetNodes,
      Log LInfo ''Short Poll: Update nodes'' [], Call (Query ''controller''),
      Call (Query ''12345''), LockLeave ''poll'',
      Log LError ''Error while polling: %s'' [Str ''boom'']] \<and>
   outcome_of (doPoll False Acquired
      (Returns [(''controller'', Some (Returns ())),
                (''12345'', Some (Throws (Err ''boom'' ''at query'')))]) ()) = Returns () \<and>
   events_of (doPoll True (TimedOut (Err ''async-lock timed out'' ''at Timeout'')) (Returns []) ()) =
     [Log LError ''Error while polling: %s'' [Str ''async-lock timed out'']]"
proof -
  let ?nodes = "Returns [(''controller'', Some (Returns ())),
                         (''12345'', Some (Throws (Err ''boom'' ''at query'')))]"
  have a: "outcome_of (lock_acquire ''poll'' Acquired (pollSection False ?nodes) ())
             = Throws (Err ''boom'' ''at query'')"
    by code_simp
  have b: "events_of (doPoll False Acquired ?nodes ()) =
     [LockEnter ''poll'', Log LInfo ''%s'' [Str ''Short poll''], Call GetNodes,
      Log LInfo ''Short Poll: Update nodes'' [], Call (Query ''controller''),
      Call (Query ''12345''), LockLeave ''poll'',
      Log LError ''Error while polling: %s'' [Str ''boom'']]"
    by code_simp
  from doPoll_never_throws [of False Acquired ?nodes "()"]
       doPoll_never_throws [of True "TimedOut (Err ''async-lock timed out'' ''at Timeout'')"
                               "Returns []" "()"]
  show ?thesis
    using a b by simp
qed

section \<open>Properties of discovery\<close>

lemma attempted_append: "attempted (a @ b) = attempted a @ attempted b"
  by (simp add: attempted_def)
lemma registered_append: "registered (a @ b) = registered a @ registered b"
  by (simp add: registered_def)
lemma scale_reads_append: "scale_reads (a @ b) = scale_reads a + scale_reads b"
  by (simp add: scale_reads_def)
lemma add_failures_append: "add_failures (a @ b) = add_failures a + add_failures b"
  by (simp add: add_failures_def)

lemma nodeDefId_node_for: "nodeDefId (node_for scale st) = variant_of scale"
  by (simp add: node_for_def variant_of_def ThermostatNode_F_def ThermostatNode_C_def)

lemma discoverThermostats_Cons:
  "discoverThermostats scaleAt addNodeR i (st # stats) s =
     (case discoverThermostats scaleAt addNodeR (Suc i) stats s of (es, s', r) \<Rightarrow>
        (body_events (scaleAt i) (addNodeR i) st @ es, s', r))"
  by (simp add: io_defs Let_def body_events_def node_for_def split: outcome.splits prod.splits)

lemma body_measures:
  "attempted (body_events scale added st) = [node_for scale st]"
  "registered (body_events scale added st) =
     (case added of Returns r \<Rightarrow> [node_for scale st] | Throws e \<Rightarrow> [])"
  "scale_reads (body_events scale added st) = 1"
  "add_failures (body_events scale added st) = (case added of Returns r \<Rightarrow> 0 | Throws e \<Rightarrow> 1)"
  by (simp_all add: body_events_def attempted_def registered_def scale_reads_def add_failures_def
      split: outcome.splits)

lemma failing_Suc:
  "failing addNodeR i (Suc n) =
     (case addNodeR i of Returns r \<Rightarrow> 0 | Throws e \<Rightarrow> 1) + failing addNodeR (Suc i) n"
proof -
  have "[i..<i + Suc n] = i # [Suc i..<Suc i + n]"
    by (subst upt_rec) simp
  then show ?thesis
    by (simp add: failing_def split: outcome.splits)
qed

lemma failing_add:
  "failing addNodeR i (m + n) = failing addNodeR i m + failing addNodeR (i + m) n"
proof -
  have "[i..<i + (m + n)] = [i..<i + m] @ [i + m..<i + m + n]"
    using upt_add_eq_append [of i "i + m" n] by (simp add: add.assoc)
  then show ?thesis
    by (simp add: failing_def)
qed

lemma discoverThermostats_run:
  "\<exists>es. discoverThermostats scaleAt addNodeR i stats s = (es, s, Returns (i + length stats)) \<and>
        map nodeDefId (attempted es) = map (\<lambda>j. variant_of (scaleAt j)) [i..<i + length stats] \<and>
        scale_reads es = length stats \<and>
        length (registered es) + add_failures es = length stats \<and>
        add_failures es = failing addNodeR i (length stats)"
proof (induction stats arbitrary: i)
  case Nil
  show ?case
    by (simp add: io_return_def attempted_def registered_def scale_reads_def add_failures_def
        failing_def)
next
  case (Cons st stats)
  from Cons.IH [of "Suc i"] obtain es where
    run: "discoverThermostats scaleAt addNodeR (Suc i) stats s =
            (es, s, Returns (Suc i + length stats))" and
    att: "map nodeDefId (attempted es) =
            map (\<lambda>j. variant_of (scaleAt j)) [Suc i..<Suc i + length stats]" and
    rds: "scale_reads es = length stats" and
    reg: "length (registered es) + add_failures es = length stats" and
    fls: "add_failures es = failing addNodeR (Suc i) (length stats)"
    by blast
  let ?es = "body_events (scaleAt i) (addNodeR i) st @ es"
  have "discoverThermostats scaleAt addNodeR i (st # stats) s =
          (?es, s, Returns (i + length (st # stats)))"
    by (subst discoverThermostats_Cons) (simp add: run)
  moreover have "map nodeDefId (attempted ?es) =
          map (\<lambda>j. variant_of (scaleAt j)) [i..<i + length (st # stats)]"
  proof -
    have "[i..<i + length (st # stats)] = i # [Suc i..<Suc i + length stats]"
      by (subst upt_rec) simp
    then show ?thesis
      by (simp add: attempted_append body_measures nodeDefId_node_for att)
  qed
  moreover have "scale_reads ?es = length (st # stats)"
    by (simp add: scale_reads_append body_measures rds)
  moreover have "length (registered ?es) + add_failures ?es = length (st # stats)"
    using reg
    by (simp add: registered_append add_failures_append body_measures split: outcome.splits)
  moreover have "add_failures ?es = failing addNodeR i (length (st # stats))"
    by (simp add: add_failures_append body_measures fls failing_Suc)
  ultimately show ?case by blast
qed

lemma listed_Cons: "listed (g # groups) = Thermostats g @ listed groups"
  by (simp add: listed_def)

lemma discoverGroups_run:
  "\<exists>es. discoverGroups scaleAt addNodeR i groups s =
          (es, s, Returns (i + length (listed groups))) \<and>
        map nodeDefId (attempted es) =
          map (\<lambda>j. variant_of (scaleAt j)) [i..<i + length (listed groups)] \<and>
        scale_reads es = length (listed groups) \<and>
        length (registered es) + add_failures es = length (listed groups) \<and>
        add_failures es = failing addNodeR i (length (listed groups))"
proof (induction groups arbitrary: i)
  case Nil
  show ?case
    by (simp add: io_return_def attempted_def registered_def scale_reads_def add_failures_def
        failing_def listed_def)
next
  case (Cons g groups)
  let ?n = "length (Thermostats g)"
  from discoverThermostats_run [of scaleAt addNodeR i "Thermostats g" s] obtain es1 where
    run1: "discoverThermostats scaleAt addNodeR i (Thermostats g) s = (es1, s, Returns (i + ?n))" and
    att1: "map nodeDefId (attempted es1) = map (\<lambda>j. variant_of (scaleAt j)) [i..<i + ?n]" and
    rds1: "scale_reads es1 = ?n" and
    reg1: "length (registered es1) + add_failures es1 = ?n" and
    fls1: "add_failures es1 = failing addNodeR i ?n"
    by blast
  from Cons.IH [of "i + ?n"] obtain es2 where
    run2: "discoverGroups scaleAt addNodeR (i + ?n) groups s =
             (es2, s, Returns (i + ?n + length (listed groups)))" and
    att2: "map nodeDefId (attempted es2) =
             map (\<lambda>j. variant_of (scaleAt j)) [i + ?n..<i + ?n + length (listed groups)]" and
    rds2: "scale_reads es2 = length (listed groups)" and
    reg2: "length (registered es2) + add_failures es2 = length (listed groups)" and
    fls2: "add_failures es2 = failing addNodeR (i + ?n) (length (listed groups))"
    by blast
  let ?es = "Log LInfo ''Group Name: '' [Str (groupName g)] # es1 @ es2"
  have "discoverGroups scaleAt addNodeR i (g # groups) s =
          (?es, s, Returns (i + length (listed (g # groups))))"
    by (simp add: io_defs run1 run2 listed_Cons add.assoc)
  moreover have "map nodeDefId (attempted ?es) =
          map (\<lambda>j. variant_of (scaleAt j)) [i..<i + length (listed (g # groups))]"
  proof -
    have "[i..<i + length (listed (g # groups))] =
            [i..<i + ?n] @ [i + ?n..<i + ?n + length (listed groups)]"
      using upt_add_eq_append [of i "i + ?n" "length (listed groups)"]
      by (simp add: listed_Cons add.assoc)
    moreover have "attempted ?es = attempted es1 @ attempted es2"
      by (simp add: attempted_def)
    ultimately show ?thesis
      using att1 att2 by simp
  qed
  moreover have "scale_reads ?es = length (listed (g # groups))"
    by (simp add: scale_reads_def listed_Cons rds1 [unfolded scale_reads_def]
        rds2 [unfolded scale_reads_def])
  moreover have "length (registered ?es) + add_failures ?es = length (listed (g # groups))"
  proof -
    have "registered ?es = registered es1 @ registered es2"
      by (simp add: registered_def)
    moreover have "add_failures ?es = add_failures es1 + add_failures es2"
      by (simp add: add_failures_def)
    ultimately show ?thesis
      using reg1 reg2 by (simp add: listed_Cons)
  qed
  moreover have "add_failures ?es = failing addNodeR i (length (listed (g # groups)))"
  proof -
    have "add_failures ?es = add_failures es1 + add_failures es2"
      by (simp add: add_failures_def)
    then show ?thesis
      by (simp add: fls1 fls2 listed_Cons failing_add)
  qed
  ultimately show ?case by blast
qed


lemma onDiscover_listing:
  assumes "discoverGroups scaleAt addNodeR 0 groups (Some \<lparr>Groups = Some groups\<rparr>) =
             (es, s', Returns n)"
  shows "onDiscover authR (Returns (Some \<lparr>Groups = Some groups\<rparr>)) scaleAt addNodeR s0 =
           ([Log LInfo ''Getting Thermostats'' [], Call Authenticate,
             Call ListThermostats, Resolved ListThermostats] @
            (case authR of
               Returns u \<Rightarrow> [Resolved Authenticate]
             | Throws e \<Rightarrow> [Rejected Authenticate e,
                            Log LError ''onDiscover(): Authenticate failed'' []]) @
            LogListing ''Thermostat Data: '' (Some \<lparr>Groups = Some groups\<rparr>) # es,
            s', Returns ())"
  using assms by (simp add: onDiscover_def io_defs split: outcome.splits)

lemma onDiscover_measures:
  assumes "discoverGroups scaleAt addNodeR 0 groups (Some \<lparr>Groups = Some groups\<rparr>) =
             (es, s', Returns n)"
  shows "attempted (events_of (onDiscover authR (Returns (Some \<lparr>Groups = Some groups\<rparr>))
                      scaleAt addNodeR s0)) = attempted es"
    and "registered (events_of (onDiscover authR (Returns (Some \<lparr>Groups = Some groups\<rparr>))
                      scaleAt addNodeR s0)) = registered es"
    and "scale_reads (events_of (onDiscover authR (Returns (Some \<lparr>Groups = Some groups\<rparr>))
                      scaleAt addNodeR s0)) = scale_reads es"
    and "add_failures (events_of (onDiscover authR (Returns (Some \<lparr>Groups = Some groups\<rparr>))
                      scaleAt addNodeR s0)) = add_failures es"
    and "outcome_of (onDiscover authR (Returns (Some \<lparr>Groups = Some groups\<rparr>))
                      scaleAt addNodeR s0) = Returns ()"
  unfolding onDiscover_listing [OF assms] run_defs
  by (simp_all add: attempted_def registered_def scale_reads_def add_failures_def
      split: outcome.splits)

lemma count_index: "length (filter (\<lambda>j. j = k) [0..<n]) = (if k < n then 1 else 0)"
  by (induction n) auto

lemma failing_one:
  assumes "k < n" and "addNodeR k = Throws e"
      and "\<forall>i<n. i \<noteq> k \<longrightarrow> (\<exists>r. addNodeR i = Returns r)"
  shows "failing addNodeR 0 n = 1"
proof -
  have "filter (\<lambda>j. case addNodeR j of Throws e \<Rightarrow> True | Returns r \<Rightarrow> False) [0..<n] =
        filter (\<lambda>j. j = k) [0..<n]"
    using assms by (intro filter_cong) (auto split: outcome.splits)
  then show ?thesis
    using assms(1) by (simp add: failing_def count_index)
qed

text \<open>
  Claim C5, evaluated where it fails. \<open>authenticate()\<close> rejects, while
  \<open>thermostats()\<close>, which was called before that rejection was looked at, returns a
  listing with one thermostat. The failure is logged and nothing is thrown, but the
  pass goes on: \<open>addNode\<close> is called for the thermostat, and it is registered.
\<close>

theorem onDiscover_auth_failure_still_adds:
  "events_of (onDiscover (Throws (Err ''401'' ''at authenticate''))
      (Returns (Some \<lparr>Groups = Some [\<lparr>groupName = ''Home'',
          Thermostats = [\<lparr>Room = ''Bath'', SerialNumber = ''12345''\<rparr>]\<rparr>]\<rparr>))
      (\<lambda>i. Str ''Fahrenheit'') (\<lambda>i. Returns ''ok'') None) =
     [Log LInfo ''Getting Thermostats'' [], Call Authenticate,
      Call ListThermostats, Resolved ListThermostats,
      Rejected Authenticate (Err ''401'' ''at authenticate''),
      Log LError ''onDiscover(): Authenticate failed'' [],
      LogListing ''Thermostat Data: '' (Some \<lparr>Groups = Some [\<lparr>groupName = ''Home'',
          Thermostats = [\<lparr>Room = ''Bath'', SerialNumber = ''12345''\<rparr>]\<rparr>]\<rparr>),
      Log LInfo ''Group Name: '' [Str ''Home''],
      Call (GetCustomParam ''Scale''),
      Call (AddNode (ThermostatNode_F ''12345'' ''12345'' ''Bath'')),
      Resolved (AddNode (ThermostatNode_F ''12345'' ''12345'' ''Bath'')),
      Log LInfo ''Add node worked: %s'' [Str ''ok''],
      Call (Sleep 1000), Resolved (Sleep 1000)] \<and>
   attempted (events_of (onDiscover (Throws (Err ''401'' ''at authenticate''))
      (Returns (Some \<lparr>Groups = Some [\<lparr>groupName = ''Home'',
          Thermostats = [\<lparr>Room = ''Bath'', SerialNumber = ''12345''\<rparr>]\<rparr>]\<rparr>))
      (\<lambda>i. Str ''Fahrenheit'') (\<lambda>i. Returns ''ok'') None)) =
     [ThermostatNode_F ''12345'' ''12345'' ''Bath''] \<and>
   outcome_of (onDiscover (Throws (Err ''401'' ''at authenticate''))
      (Returns (Some \<lparr>Groups = Some [\<lparr>groupName = ''Home'',
          Thermostats = [\<lparr>Room = ''Bath'', SerialNumber = ''12345''\<rparr>]\<rparr>]\<rparr>))
      (\<lambda>i. Str ''Fahrenheit'') (\<lambda>i. Returns ''ok'') None) = Returns ()"
  by code_simp

text \<open>
  Claim C6. When the vendor's listing holds \<open>N\<close> thermostats and \<open>addNode\<close> throws for
  the \<open>k\<close>-th of them and for no other, then, whatever the scale and whether or not
  \<open>authenticate()\<close> succeeded, \<open>onDiscover\<close> returns normally, \<open>addNode\<close> is
  attempted for all \<open>N\<close> (the loop is not aborted), the failure is logged once, and
  exactly \<open>N - 1\<close> devices are registered.
\<close>

theorem onDiscover_partial_failure:
  assumes "k < length (listed groups)"
      and "addNodeR k = Throws e"
      and "\<forall>i<length (listed groups). i \<noteq> k \<longrightarrow> (\<exists>r. addNodeR i = Returns r)"
  shows "outcome_of (onDiscover authR (Returns (Some \<lparr>Groups = Some groups\<rparr>))
                       scaleAt addNodeR s0) = Returns () \<and>
         length (attempted (events_of (onDiscover authR (Returns (Some \<lparr>Groups = Some groups\<rparr>))
                       scaleAt addNodeR s0))) = length (listed groups) \<and>
         add_failures (events_of (onDiscover authR (Returns (Some \<lparr>Groups = Some groups\<rparr>))
                       scaleAt addNodeR s0)) = 1 \<and>
         length (registered (events_of (onDiscover authR (Returns (Some \<lparr>Groups = Some groups\<rparr>))
                       scaleAt addNodeR s0))) = length (listed groups) - 1"
proof -
  from discoverGroups_run [of scaleAt addNodeR 0 groups "Some \<lparr>Groups = Some groups\<rparr>"]
  obtain es where
    run: "discoverGroups scaleAt addNodeR 0 groups (Some \<lparr>Groups = Some groups\<rparr>) =
            (es, Some \<lparr>Groups = Some groups\<rparr>, Returns (0 + length (listed groups)))" and
    att: "map nodeDefId (attempted es) =
            map (\<lambda>j. variant_of (scaleAt j)) [0..<0 + length (listed groups)]" and
    reg: "length (registered es) + add_failures es = length (listed groups)" and
    fls: "add_failures es = failing addNodeR 0 (length (listed groups))"
    by blast
  have one: "add_failures es = 1"
    using fls failing_one [OF assms] by simp
  have len: "length (attempted es) = length (listed groups)"
    using arg_cong [OF att, of length] by simp
  show ?thesis
    using one len reg by (simp add: onDiscover_measures [OF run])
qed

text \<open>
  Three thermostats in two groups; registering the second one fails. The first and the
  third are registered.
\<close>

theorem onDiscover_partial_failure_witness:
  "(1::nat) < length (listed
      [\<lparr>groupName = ''Home'', Thermostats = [\<lparr>Room = ''Bath'', SerialNumber = ''1''\<rparr>,
                                             \<lparr>Room = ''Hall'', SerialNumber = ''2''\<rparr>]\<rparr>,
       \<lparr>groupName = ''Cabin'', Thermostats = [\<lparr>Room = ''Loft'', SerialNumber = ''3''\<rparr>]\<rparr>]) \<and>
   outcome_of (onDiscover (Returns ())
      (Returns (Some \<lparr>Groups = Some
        [\<lparr>groupName = ''Home'', Thermostats = [\<lparr>Room = ''Bath'', SerialNumber = ''1''\<rparr>,
                                               \<lparr>Room = ''Hall'', SerialNumber = ''2''\<rparr>]\<rparr>,
         \<lparr>groupName = ''Cabin'', Thermostats = [\<lparr>Room = ''Loft'', SerialNumber = ''3''\<rparr>]\<rparr>]\<rparr>))
      (\<lambda>i. Str ''Fahrenheit'')
      (\<lambda>i. if i = 1 then Throws (Err ''rejected'' ''at addNode'') else Returns ''ok'') None)
     = Returns () \<and>
   map address (registered (events_of (onDiscover (Returns ())
      (Returns (Some \<lparr>Groups = Some
        [\<lparr>groupName = ''Home'', Thermostats = [\<lparr>Room = ''Bath'', SerialNumber = ''1''\<rparr>,
                                               \<lparr>Room = ''Hall'', SerialNumber = ''2''\<rparr>]\<rparr>,
         \<lparr>groupName = ''Cabin'', Thermostats = [\<lparr>Room = ''Loft'', SerialNumber = ''3''\<rparr>]\<rparr>]\<rparr>))
      (\<lambda>i. Str ''Fahrenheit'')
      (\<lambda>i. if i = 1 then Throws (Err ''rejected'' ''at addNode'') else Returns ''ok'') None)))
     = [''1'', ''3''] \<and>
   length (registered (events_of (onDiscover (Returns ())
      (Returns (Some \<lparr>Groups = Some
        [\<lparr>groupName = ''Home'', Thermostats = [\<lparr>Room = ''Bath'', SerialNumber = ''1''\<rparr>,
                                               \<lparr>Room = ''Hall'', SerialNumber = ''2''\<rparr>]\<rparr>,
         \<lparr>groupName = ''Cabin'', Thermostats = [\<lparr>Room = ''Loft'', SerialNumber = ''3''\<rparr>]\<rparr>]\<rparr>))
      (\<lambda>i. Str ''Fahrenheit'')
      (\<lambda>i. if i = 1 then Throws (Err ''rejected'' ''at addNode'') else Returns ''ok'') None)))
     = 3 - 1"
proof -
  let ?groups =
    "[\<lparr>groupName = ''Home'', Thermostats = [\<lparr>Room = ''Bath'', SerialNumber = ''1''\<rparr>,
                                            \<lparr>Room = ''Hall'', SerialNumber = ''2''\<rparr>]\<rparr>,
      \<lparr>groupName = ''Cabin'', Thermostats = [\<lparr>Room = ''Loft'', SerialNumber = ''3''\<rparr>]\<rparr>]"
  let ?add = "\<lambda>i::nat. if i = 1 then Throws (Err ''rejected'' ''at addNode'') else Returns ''ok''"
  have n: "length (listed ?groups) = 3"
    by (simp add: listed_def)
  have h1: "1 < length (listed ?groups)"
    by (simp add: n)
  have h2: "?add 1 = Throws (Err ''rejected'' ''at addNode'')"
    by simp
  have h3: "\<forall>i<length (listed ?groups). i \<noteq> 1 \<longrightarrow> (\<exists>r. ?add i = Returns r)"
    by simp
  have v: "map address (registered (events_of (onDiscover (Returns ())
             (Returns (Some \<lparr>Groups = Some ?groups\<rparr>)) (\<lambda>i. Str ''Fahrenheit'') ?add None)))
           = [''1'', ''3'']"
    by code_simp
  from onDiscover_partial_failure [OF h1 h2 h3, of "Returns ()" "\<lambda>i. Str ''Fahrenheit''" None]
  show ?thesis
    using h1 v n by simp
qed

text \<open>
  Claim C7 fails as stated: the scale is read inside the inner loop, once for every
  thermostat. In a pass over two thermostats during which the parameter changes from
  Fahrenheit to Celsius, it is read twice and the two nodes created are of different
  variants.
\<close>

theorem onDiscover_mixed_variants_counterexample:
  "scale_reads (events_of (onDiscover (Returns ())
      (Returns (Some \<lparr>Groups = Some [\<lparr>groupName = ''Home'',
          Thermostats = [\<lparr>Room = ''Bath'', SerialNumber = ''1''\<rparr>,
                         \<lparr>Room = ''Hall'', SerialNumber = ''2''\<rparr>]\<rparr>]\<rparr>))
      (\<lambda>i. if i = 0 then Str ''Fahrenheit'' else Str ''Celsius'')
      (\<lambda>i. Returns ''ok'') None)) = 2 \<and>
   map nodeDefId (registered (events_of (onDiscover (Returns ())
      (Returns (Some \<lparr>Groups = Some [\<lparr>groupName = ''Home'',
          Thermostats = [\<lparr>Room = ''Bath'', SerialNumber = ''1''\<rparr>,
                         \<lparr>Room = ''Hall'', SerialNumber = ''2''\<rparr>]\<rparr>]\<rparr>))
      (\<lambda>i. if i = 0 then Str ''Fahrenheit'' else Str ''Celsius'')
      (\<lambda>i. Returns ''ok'') None))) = [''THERMOSTAT_F'', ''THERMOSTAT_C'']"
  by code_simp

text \<open>
  Claim C7, amended. The scale is read once for every listed thermostat, right before
  its node is created, and the \<open>j\<close>-th node is of the variant that the \<open>j\<close>-th read
  selects (Fahrenheit for \<open>'Fahrenheit'\<close>, Celsius for anything else). So all nodes
  created in a pass are of one variant whenever every read of the pass returns the same
  scale.
\<close>

theorem onDiscover_scale_per_device:
  "scale_reads (events_of (onDiscover authR (Returns (Some \<lparr>Groups = Some groups\<rparr>))
                  scaleAt addNodeR s0)) = length (listed groups) \<and>
   map nodeDefId (attempted (events_of (onDiscover authR (Returns (Some \<lparr>Groups = Some groups\<rparr>))
                  scaleAt addNodeR s0))) =
     map (\<lambda>j. variant_of (scaleAt j)) [0..<length (listed groups)] \<and>
   ((\<forall>j<length (listed groups). scaleAt j = scale) \<longrightarrow>
    (\<forall>n \<in> set (attempted (events_of (onDiscover authR (Returns (Some \<lparr>Groups = Some groups\<rparr>))
                  scaleAt addNodeR s0))). nodeDefId n = variant_of scale))"
proof -
  from discoverGroups_run [of scaleAt addNodeR 0 groups "Some \<lparr>Groups = Some groups\<rparr>"]
  obtain es where
    run: "discoverGroups scaleAt addNodeR 0 groups (Some \<lparr>Groups = Some groups\<rparr>) =
            (es, Some \<lparr>Groups = Some groups\<rparr>, Returns (0 + length (listed groups)))" and
    att: "map nodeDefId (attempted es) =
            map (\<lambda>j. variant_of (scaleAt j)) [0..<0 + length (listed groups)]" and
    rds: "scale_reads es = length (listed groups)"
    by blast
  have same: "\<forall>n \<in> set (attempted es). nodeDefId n = variant_of scale"
    if c: "\<forall>j<length (listed groups). scaleAt j = scale"
  proof
    fix n assume "n \<in> set (attempted es)"
    then have "nodeDefId n \<in> set (map nodeDefId (attempted es))"
      by simp
    then have "nodeDefId n \<in> set (map (\<lambda>j. variant_of (scaleAt j)) [0..<length (listed groups)])"
      using att by simp
    then show "nodeDefId n = variant_of scale"
      using c by auto
  qed
  show ?thesis
    using att rds same by (simp add: onDiscover_measures [OF run])
qed

text \<open>A pass over two thermostats with the scale at Celsius throughout.\<close>

theorem onDiscover_scale_per_device_witness:
  "scale_reads (events_of (onDiscover (Returns ())
      (Returns (Some \<lparr>Groups = Some [\<lparr>groupName = ''Home'',
          Thermostats = [\<lparr>Room = ''Bath'', SerialNumber = ''1''\<rparr>,
                         \<lparr>Room = ''Hall'', SerialNumber = ''2''\<rparr>]\<rparr>]\<rparr>))
      (\<lambda>i. Str ''Celsius'') (\<lambda>i. Returns ''ok'') None)) = 2 \<and>
   map nodeDefId (attempted (events_of (onDiscover (Returns ())
      (Returns (Some \<lparr>Groups = Some [\<lparr>groupName = ''Home'',
          Thermostats = [\<lparr>Room = ''Bath'', SerialNumber = ''1''\<rparr>,
                         \<lparr>Room = ''Hall'', SerialNumber = ''2''\<rparr>]\<rparr>]\<rparr>))
      (\<lambda>i. Str ''Celsius'') (\<lambda>i. Returns ''ok'') None))) = [''THERMOSTAT_C'', ''THERMOSTAT_C'']"
proof -
  let ?groups = "[\<lparr>groupName = ''Home'',
          Thermostats = [\<lparr>Room = ''Bath'', SerialNumber = ''1''\<rparr>,
                         \<lparr>Room = ''Hall'', SerialNumber = ''2''\<rparr>]\<rparr>]"
  have n: "length (listed ?groups) = 2"
    by (simp add: listed_def)
  have r: "[0..<2] = [0, Suc 0]"
    by (simp add: upt_rec)
  from onDiscover_scale_per_device
         [of "Returns ()" ?groups "\<lambda>i. Str ''Celsius''" "\<lambda>i. Returns ''ok''" None "Str ''Celsius''"]
  show ?thesis
    by (simp add: n r variant_of_def)
qed

end
